theory Spec2Isabelle
  imports Main
begin

section \<open>The kue worker: values at its interface\<close>

text \<open>
  The embedding follows \<^verbatim>\<open>lib/queue/worker.js\<close>. The worker is written in
  continuation-passing style: every method issues broker and job operations and hands
  them a callback. Each method and each callback becomes one function from the worker's
  fields and the module's table of blocking connections to their new values and the list
  of operations issued, in order, during that synchronous turn. A callback handed to an
  asynchronous operation is a value of the datatype \<open>cont\<close>; the function
  \<open>dispatch\<close> further down runs the callback a continuation names once the
  environment resolves the operation.
\<close>

text \<open>
  Error values that reach the worker: a plain string (\<^verbatim>\<open>"Already Shutdown"\<close>), an
  \<^verbatim>\<open>Error\<close> object with its optional \<^verbatim>\<open>stack\<close> and its \<^verbatim>\<open>message\<close>, or a literal
  \<^verbatim>\<open>{error: b, message: m}\<close>. \<^verbatim>\<open>null\<close> and \<^verbatim>\<open>undefined\<close> are \<open>None\<close>.
\<close>

datatype js_err =
    RawString string
  | ErrorObject "string option" string
  | Structured bool string

text \<open>JavaScript truthiness of an error argument (\<^verbatim>\<open>if (err)\<close>).\<close>

definition err_truthy :: "js_err option \<Rightarrow> bool" where
  "err_truthy e = (case e of None \<Rightarrow> False
                   | Some (RawString s) \<Rightarrow> s \<noteq> []
                   | Some _ \<Rightarrow> True)"

text \<open>
  A result handed to \<^verbatim>\<open>done(err, result)\<close> is an arbitrary JavaScript value. The worker
  observes three things of it: its truthiness, what \<^verbatim>\<open>JSON.stringify\<close> makes of it
  (\<open>None\<close> when it throws, as on a cyclic structure) and what string concatenation
  makes of it (\<open>None\<close> when the coercion throws, as on an object without
  \<^verbatim>\<open>toString\<close>).
\<close>

record js_value =
  truthy :: bool
  json_stringify :: "string option"
  to_string :: "string option"

text \<open>
  Modelled from the spec: the \<^verbatim>\<open>Job\<close> entity of \<^verbatim>\<open>lib/queue/job.js\<close>, which is not
  part of the sources at hand. The worker reads its \<^verbatim>\<open>id\<close>, \<^verbatim>\<open>backoff()\<close> (truthy or
  not), \<^verbatim>\<open>delay()\<close>, \<^verbatim>\<open>_getBackoffImpl()\<close> (a function from the attempts count to a
  delay, which may throw; \<open>None\<close> when it is not a function) and
  \<^verbatim>\<open>removeOnComplete()\<close>. Its state transitions are operations issued to the
  environment, see \<open>action\<close>.
\<close>

record Job =
  job_id :: nat
  backoff :: bool
  delay :: int
  getBackoffImpl :: "(nat \<Rightarrow> js_err + int) option"
  removeOnComplete :: bool

text \<open>\<^verbatim>\<open>self.job\<close>: \<^verbatim>\<open>null\<close>, the temporary value \<^verbatim>\<open>true\<close>, or a job object.\<close>

datatype cur = NoJob | Reserving | Holding Job

text \<open>
  The third argument of \<^verbatim>\<open>failed\<close> and the argument of \<^verbatim>\<open>start\<close>: the user's
  processor, or the wrapper \<^verbatim>\<open>_fn\<close> of the shutdown call \<open>sid\<close>, which the grace
  timer passes in that position.
\<close>

datatype procref = Processor | ShutdownFn nat

datatype lifecycle_event = Job_complete | Job_failed | Job_failed_attempt

text \<open>Callbacks handed to asynchronous operations.\<close>

datatype cont =
    K_blpop procref nat
  | K_zpop procref
  | K_get procref
  | K_active procref Job
  | K_done procref Job
  | K_failed procref Job
  | K_failed_attempt procref Job
  | K_emit_failed_attempt Job nat
  | K_complete Job "js_value option"
  | K_complete_attempt Job "js_value option"
  | K_start procref
  | K_timer nat

datatype client_ref = OwnClient | BlockingClient nat

datatype key = Key string

text \<open>The payload of the \<^verbatim>\<open>error\<close> event: \<^verbatim>\<open>{stack, message}\<close> or the raw value.\<close>

datatype error_info = StackMessage string string | RawValue js_err

text \<open>
  Values passed to \<^verbatim>\<open>job.set\<close>: a number, a text, or
  \<^verbatim>\<open>JSON.stringify({error: b, message: m})\<close>.
\<close>

datatype field_value = FNum int | FText string | FMarker bool string

datatype bus_event = Bus_failed | Bus_failed_attempt nat | Bus_complete "js_value option"

text \<open>
  Everything a turn of the worker can do to its environment: commands sent to the broker
  (on the worker's own connection or on a blocking connection), operations on a job, and
  the rest (events, deferred calls, timers, callbacks of the caller).
\<close>

datatype broker_op =
    CreateClient nat
  | Blpop nat key cont
  | Lpush client_ref key
  | Zpop key cont
  | Quit nat

datatype job_op =
    JobGet nat cont
  | JobActive Job cont
  | JobError Job js_err
  | JobFailed Job cont
  | JobAttempt Job cont
  | JobSetDelay Job int
  | JobUpdate Job
  | JobDelayed Job cont
  | JobInactive Job cont
  | JobComplete Job cont
  | JobRemove Job
  | AssignDuration Job int
  | AssignResult Job js_value
  | JobSet Job string field_value

datatype action =
    Broker broker_op
  | OnJob job_op
  | EmitError error_info "Job option"
  | Emit lifecycle_event Job
  | EventsEmit nat bus_event
  | NextTick cont
  | InvokeProcessor Job cont
  | QueueShutdown nat int string
  | SetTimeout nat int cont
  | ClearTimeout nat
  | RemoveAllListeners
  | Callback nat
  | Uncaught

section \<open>The worker and the module\<close>

text \<open>
  \<^verbatim>\<open>var clients = {}\<close> is a variable of the module: one table of blocking connections
  by job type for all workers of the process. \<open>next_client\<close> numbers the connections
  \<^verbatim>\<open>redis.createClient()\<close> returns.
\<close>

record module =
  clients :: "(string \<times> nat) list"
  next_client :: nat

text \<open>
  The fields of one worker. A listener entry is the event, the shutdown call whose
  wrapper \<^verbatim>\<open>_fn\<close> it is, and whether that call's \<^verbatim>\<open>shutdownTimer\<close> is set.
  \<open>error_listener\<close> says whether somebody outside has registered a listener for
  \<^verbatim>\<open>error\<close> on the worker: the constructor registers none, and
  \<^verbatim>\<open>removeAllListeners()\<close> removes it with all the others.
\<close>

record worker =
  wtype :: string
  running :: bool
  job :: cur
  listeners :: "(lifecycle_event \<times> nat \<times> bool) list"
  error_listener :: bool

text \<open>What a turn returns: the worker, the module's table, the operations issued.\<close>

type_synonym turn = "worker \<times> module \<times> action list"

definition Worker :: "string \<Rightarrow> worker" where
  "Worker t = \<lparr>wtype = t, running = True, job = NoJob, listeners = [],
                error_listener = False\<rparr>"

definition jobs_key :: "worker \<Rightarrow> key" where
  "jobs_key w = Key (wtype w @ '':jobs'')"

definition inactive_key :: "worker \<Rightarrow> key" where
  "inactive_key w = Key (''jobs:'' @ wtype w @ '':inactive'')"

subsection \<open>\<^verbatim>\<open>Worker.prototype.error\<close>\<close>

definition error_payload :: "js_err \<Rightarrow> error_info" where
  "error_payload err = (case err of
       ErrorObject (Some st) m \<Rightarrow> if st \<noteq> [] then StackMessage st m else RawValue err
     | _ \<Rightarrow> RawValue err)"

text \<open>
  The method emits \<^verbatim>\<open>error\<close> with the payload and the job. An emitter without a
  listener for \<^verbatim>\<open>error\<close> throws from \<^verbatim>\<open>emit\<close>: the result is \<open>None\<close> then, and
  the caller's turn ends there with \<open>Uncaught\<close>. The method changes no field.
\<close>

definition error :: "js_err \<Rightarrow> Job option \<Rightarrow> worker \<Rightarrow> action list option" where
  "error err j w =
     (if error_listener w then Some [EmitError (error_payload err) j] else None)"

subsection \<open>The wrapper \<^verbatim>\<open>_fn\<close> of \<^verbatim>\<open>shutdown\<close> and event emission\<close>

text \<open>\<^verbatim>\<open>job && self.job && job.id != self.job.id\<close>; \<^verbatim>\<open>true.id\<close> is undefined.\<close>

definition older_job_event :: "Job option \<Rightarrow> cur \<Rightarrow> bool" where
  "older_job_event jarg c = (case jarg of None \<Rightarrow> False
     | Some j \<Rightarrow> (case c of NoJob \<Rightarrow> False | Reserving \<Rightarrow> True
                 | Holding j' \<Rightarrow> job_id j \<noteq> job_id j'))"

definition shutdown_fn :: "nat \<Rightarrow> bool \<Rightarrow> Job option \<Rightarrow> worker \<Rightarrow> module \<Rightarrow> turn" where
  "shutdown_fn sid timer jarg w m =
     (if older_job_event jarg (job w) then (w, m, [])
      else (w\<lparr>job := NoJob, listeners := [], error_listener := False\<rparr>,
            m\<lparr>clients := filter (\<lambda>(t, c). t \<noteq> wtype w) (clients m)\<rparr>,
            (if timer then [ClearTimeout sid] else [])
            @ [RemoveAllListeners, Broker (Lpush OwnClient (jobs_key w))]
            @ (case map_of (clients m) (wtype w) of None \<Rightarrow> [] | Some c \<Rightarrow> [Broker (Quit c)])
            @ [Callback sid]))"

text \<open>
  \<^verbatim>\<open>self.emit(event, job)\<close>: listeners outside the worker see the \<open>Emit\<close> action;
  the \<^verbatim>\<open>_fn\<close> wrappers registered for the event at the time of the call run in order.
\<close>

fun run_listeners :: "(nat \<times> bool) list \<Rightarrow> Job \<Rightarrow> worker \<Rightarrow> module \<Rightarrow> turn" where
  "run_listeners [] j w m = (w, m, [])"
| "run_listeners ((sid, t) # ls) j w m =
     (case shutdown_fn sid t (Some j) w m of
        (w1, m1, a1) \<Rightarrow> (case run_listeners ls j w1 m1 of
                          (w2, m2, a2) \<Rightarrow> (w2, m2, a1 @ a2)))"

definition emit :: "lifecycle_event \<Rightarrow> Job \<Rightarrow> worker \<Rightarrow> module \<Rightarrow> turn" where
  "emit ev j w m =
     (case run_listeners (map snd (filter (\<lambda>l. fst l = ev) (listeners w))) j w m of
        (w', m', acts) \<Rightarrow> (w', m', Emit ev j # acts))"

subsection \<open>\<^verbatim>\<open>process\<close>, \<^verbatim>\<open>zpop\<close>, \<^verbatim>\<open>getJob\<close> and \<^verbatim>\<open>start\<close>\<close>

definition process :: "Job \<Rightarrow> procref \<Rightarrow> worker \<Rightarrow> module \<Rightarrow> turn" where
  "process j p w m = (w, m, [OnJob (JobActive j (K_active p j))])"

text \<open>The callback of \<^verbatim>\<open>job.active\<close>: \<^verbatim>\<open>fn(job, done, ctx)\<close>.\<close>

definition active_cb :: "procref \<Rightarrow> Job \<Rightarrow> worker \<Rightarrow> module \<Rightarrow> turn" where
  "active_cb p j w m = (case p of
       Processor \<Rightarrow> (w, m, [InvokeProcessor j (K_done p j)])
     | ShutdownFn sid \<Rightarrow> shutdown_fn sid True (Some j) w m)"

text \<open>
  The callback of \<^verbatim>\<open>exec\<close> in \<^verbatim>\<open>zpop\<close>: what it passes on, given the error and the reply
  \<^verbatim>\<open>res[0]\<close> of \<^verbatim>\<open>zrange\<close>.
\<close>

definition zpop_exec_cb :: "js_err option \<Rightarrow> nat list \<Rightarrow> js_err option \<times> nat option" where
  "zpop_exec_cb err res =
     (if err_truthy err then (err, None)
      else (None, case res of [] \<Rightarrow> None | x # _ \<Rightarrow> Some x))"

text \<open>
  The callback \<^verbatim>\<open>start\<close> hands to \<^verbatim>\<open>getJob\<close>: with an error it calls
  \<^verbatim>\<open>self.error\<close> and defers \<^verbatim>\<open>start\<close>; without a job it defers \<^verbatim>\<open>start\<close>;
  otherwise it stores the job and processes it.
\<close>

definition start_cb :: "procref \<Rightarrow> js_err option \<Rightarrow> Job option \<Rightarrow> worker \<Rightarrow> module \<Rightarrow> turn" where
  "start_cb p err j w m =
     (case (if err_truthy err then err else None) of
        Some e \<Rightarrow> (case error e j w of
                     None \<Rightarrow> (w, m, [Uncaught])
                   | Some a \<Rightarrow> (w, m, a @ [NextTick (K_start p)]))
      | None \<Rightarrow> (case j of
                   None \<Rightarrow> (w, m, [NextTick (K_start p)])
                 | Some jb \<Rightarrow> process jb p (w\<lparr>job := Holding jb\<rparr>) m))"

text \<open>
  \<^verbatim>\<open>getJob(fn)\<close> and its callbacks return, besides the fields, the table and the
  operations, the arguments of \<^verbatim>\<open>fn\<close> when they call it within the turn.
\<close>

type_synonym fn_call = "(js_err option \<times> Job option) option"

definition getJob :: "procref \<Rightarrow> worker \<Rightarrow> module \<Rightarrow> worker \<times> module \<times> action list \<times> fn_call" where
  "getJob p w m =
     (let (m1, cid, a1) = (case map_of (clients m) (wtype w) of
              Some c \<Rightarrow> (m, c, [])
            | None \<Rightarrow> (m\<lparr>clients := (wtype w, next_client m) # clients m,
                         next_client := Suc (next_client m)\<rparr>,
                       next_client m, [Broker (CreateClient (next_client m))]))
      in if \<not> running w
         then (w, m1, a1, Some (Some (RawString ''Already Shutdown''), None))
         else (w, m1, a1 @ [Broker (Blpop cid (jobs_key w) (K_blpop p cid))], None))"

definition blpop_cb ::
  "procref \<Rightarrow> nat \<Rightarrow> js_err option \<Rightarrow> worker \<Rightarrow> module \<Rightarrow> worker \<times> module \<times> action list \<times> fn_call" where
  "blpop_cb p cid err w m =
     (if err_truthy err \<or> \<not> running w
      then (w, m, [Broker (Lpush (BlockingClient cid) (jobs_key w))], Some (err, None))
      else (w\<lparr>job := Reserving\<rparr>, m, [Broker (Zpop (inactive_key w) (K_zpop p))], None))"

definition zpop_cb ::
  "procref \<Rightarrow> js_err option \<Rightarrow> nat option \<Rightarrow> worker \<Rightarrow> module \<Rightarrow> worker \<times> module \<times> action list \<times> fn_call" where
  "zpop_cb p err ident w m =
     (case (if err_truthy err then None else ident) of
        None \<Rightarrow> (w\<lparr>job := NoJob\<rparr>, m, [], Some (err, None))
      | Some i \<Rightarrow> (w, m, [OnJob (JobGet i (K_get p))], None))"

text \<open>Running \<^verbatim>\<open>fn\<close>, the callback of \<^verbatim>\<open>start\<close>, where \<^verbatim>\<open>getJob\<close> called it.\<close>

definition with_fn :: "procref \<Rightarrow> worker \<times> module \<times> action list \<times> fn_call \<Rightarrow> turn" where
  "with_fn p r = (case r of
       (w, m, a, None) \<Rightarrow> (w, m, a)
     | (w, m, a, Some (e, j)) \<Rightarrow> (case start_cb p e j w m of (w', m', a') \<Rightarrow> (w', m', a @ a')))"

definition start :: "procref \<Rightarrow> worker \<Rightarrow> module \<Rightarrow> turn" where
  "start p w m =
     (let w0 = w\<lparr>job := NoJob\<rparr>
      in if \<not> running w0 then (w0, m, []) else with_fn p (getJob p w0 m))"

text \<open>A turn that goes on with \<^verbatim>\<open>self.start(fn)\<close>.\<close>

definition then_start :: "procref \<Rightarrow> turn \<Rightarrow> turn" where
  "then_start p r = (case r of
       (w, m, a) \<Rightarrow> (case start p w m of (w', m', a') \<Rightarrow> (w', m', a @ a')))"

subsection \<open>\<^verbatim>\<open>failed\<close> and its callbacks\<close>

definition failed :: "Job \<Rightarrow> js_err \<Rightarrow> procref \<Rightarrow> worker \<Rightarrow> module \<Rightarrow> turn" where
  "failed j err p w m = (w, m, [OnJob (JobError j err), OnJob (JobFailed j (K_failed p j))])"

definition failed_cb :: "procref \<Rightarrow> Job \<Rightarrow> worker \<Rightarrow> module \<Rightarrow> turn" where
  "failed_cb p j w m = (w, m, [OnJob (JobAttempt j (K_failed_attempt p j))])"

text \<open>
  The delay of a retry with backoff: \<^verbatim>\<open>job.delay()\<close>, replaced by what the custom
  function returns; when it throws, \<^verbatim>\<open>self.error(e, job)\<close> runs in the \<^verbatim>\<open>catch\<close>
  block and the delay stays. \<open>None\<close> when \<^verbatim>\<open>self.error\<close> throws in its turn.
\<close>

definition backoff_delay :: "Job \<Rightarrow> nat \<Rightarrow> worker \<Rightarrow> (action list \<times> int) option" where
  "backoff_delay j attempts w = (case getBackoffImpl j of
       None \<Rightarrow> Some ([], delay j)
     | Some f \<Rightarrow> (case f attempts of
           Inr d \<Rightarrow> Some ([], d)
         | Inl e \<Rightarrow> (case error e (Some j) w of
               None \<Rightarrow> None
             | Some a \<Rightarrow> Some (a, delay j))))"

text \<open>The callback of \<^verbatim>\<open>job.attempt\<close> in \<^verbatim>\<open>failed\<close>.\<close>

definition failed_attempt_cb ::
  "procref \<Rightarrow> Job \<Rightarrow> js_err option \<Rightarrow> nat \<Rightarrow> nat \<Rightarrow> nat \<Rightarrow> worker \<Rightarrow> module \<Rightarrow> turn" where
  "failed_attempt_cb p j aerr remaining attempts mx w m =
     (case (if err_truthy aerr then aerr else None) of
        Some e \<Rightarrow> (case error e (Some j) w of
                     None \<Rightarrow> (w, m, [Uncaught])
                   | Some a \<Rightarrow> (w, m, a))
      | None \<Rightarrow>
         (if remaining \<noteq> 0 then
            (if backoff j then
               (case backoff_delay j attempts w of
                  None \<Rightarrow> (w, m, [Uncaught])
                | Some (ae, d) \<Rightarrow>
                    then_start p
                      (w, m, ae @ [OnJob (JobSetDelay j d), OnJob (JobUpdate j),
                                   OnJob (JobDelayed j (K_emit_failed_attempt j attempts))]))
             else then_start p (w, m, [OnJob (JobInactive j (K_emit_failed_attempt j attempts))]))
          else then_start p
                 (case emit Job_failed j w m of
                    (w', m', ae) \<Rightarrow> (w', m', ae @ [EventsEmit (job_id j) Bus_failed]))))"

text \<open>The closure \<^verbatim>\<open>emit\<close> of \<^verbatim>\<open>failed\<close>, callback of \<^verbatim>\<open>delayed\<close> and \<^verbatim>\<open>inactive\<close>.\<close>

definition emit_failed_attempt_cb :: "Job \<Rightarrow> nat \<Rightarrow> worker \<Rightarrow> module \<Rightarrow> turn" where
  "emit_failed_attempt_cb j attempts w m =
     (case emit Job_failed_attempt j w m of
        (w', m', ae) \<Rightarrow> (w', m', ae @ [EventsEmit (job_id j) (Bus_failed_attempt attempts)]))"

subsection \<open>The \<^verbatim>\<open>done\<close> callback of \<^verbatim>\<open>process\<close> and the control object\<close>

definition dquote :: char where
  "dquote = CHR 0x22"

text \<open>
  The \<^verbatim>\<open>try\<close>/\<^verbatim>\<open>catch\<close> around the result: \<open>None\<close> when the \<^verbatim>\<open>catch\<close> block
  itself throws.
\<close>

definition store_result :: "Job \<Rightarrow> js_value \<Rightarrow> action list option" where
  "store_result j v = (case json_stringify v of
       Some t \<Rightarrow> Some [OnJob (AssignResult j v), OnJob (JobSet j ''result'' (FText t))]
     | None \<Rightarrow> (case to_string v of
           Some s \<Rightarrow> Some [OnJob (AssignResult j v),
                           OnJob (JobSet j ''result''
                             (FMarker True (''Invalid JSON Result: '' @ [dquote] @ s @ [dquote])))]
         | None \<Rightarrow> None))"

text \<open>
  \<^verbatim>\<open>done(err, result)\<close>; \<open>elapsed\<close> is \<^verbatim>\<open>new Date - start\<close>.
\<close>

definition done_cb ::
  "procref \<Rightarrow> Job \<Rightarrow> int \<Rightarrow> js_err option \<Rightarrow> js_value option \<Rightarrow> worker \<Rightarrow> module \<Rightarrow> turn" where
  "done_cb p j elapsed err result w m =
     (case (if err_truthy err then err else None) of
        Some e \<Rightarrow> failed j e p w m
      | None \<Rightarrow>
         (let a1 = [OnJob (AssignDuration j elapsed), OnJob (JobSet j ''duration'' (FNum elapsed))];
              r = (case result of None \<Rightarrow> Some []
                   | Some v \<Rightarrow> if truthy v then store_result j v else Some [])
          in case r of
               None \<Rightarrow> (w, m, a1 @ (case result of None \<Rightarrow> []
                                      | Some v \<Rightarrow> [OnJob (AssignResult j v)])
                                 @ [Uncaught])
             | Some a2 \<Rightarrow>
                 then_start p (w, m, a1 @ a2 @ [OnJob (JobComplete j (K_complete j result))])))"

definition complete_cb :: "Job \<Rightarrow> js_value option \<Rightarrow> worker \<Rightarrow> module \<Rightarrow> turn" where
  "complete_cb j result w m = (w, m, [OnJob (JobAttempt j (K_complete_attempt j result))])"

definition complete_attempt_cb :: "Job \<Rightarrow> js_value option \<Rightarrow> worker \<Rightarrow> module \<Rightarrow> turn" where
  "complete_attempt_cb j result w m =
     (case emit Job_complete j w m of
        (w', m', ae) \<Rightarrow>
          (w', m', ae @ [EventsEmit (job_id j) (Bus_complete result)]
                      @ (if removeOnComplete j then [OnJob (JobRemove j)] else [])))"

text \<open>\<^verbatim>\<open>Worker.prototype.resume\<close>: the new fields and the returned flag.\<close>

definition resume :: "worker \<Rightarrow> worker \<times> bool" where
  "resume w = (if running w then (w, False) else (w\<lparr>running := True\<rparr>, True))"

text \<open>The control object's \<^verbatim>\<open>pause(fn, timeout)\<close> and \<^verbatim>\<open>resume()\<close>.\<close>

definition ctx_pause :: "nat \<Rightarrow> int option \<Rightarrow> worker \<Rightarrow> module \<Rightarrow> turn" where
  "ctx_pause cb timeout w m =
     (w, m, [QueueShutdown cb (case timeout of None \<Rightarrow> 5000
                               | Some t \<Rightarrow> if t = 0 then 5000 else t) (wtype w)])"

definition ctx_resume :: "procref \<Rightarrow> worker \<Rightarrow> module \<Rightarrow> turn" where
  "ctx_resume p w m = (case resume w of
       (w', True) \<Rightarrow> start p w' m
     | (w', False) \<Rightarrow> (w', m, []))"

subsection \<open>\<^verbatim>\<open>shutdown\<close> and its grace timer\<close>

definition timeout_truthy :: "int option \<Rightarrow> bool" where
  "timeout_truthy t = (case t of None \<Rightarrow> False | Some n \<Rightarrow> n \<noteq> 0)"

definition shutdown :: "nat \<Rightarrow> int option \<Rightarrow> worker \<Rightarrow> module \<Rightarrow> turn" where
  "shutdown sid timeout w m =
     (if \<not> running w then shutdown_fn sid False None w m
      else (let w1 = w\<lparr>running := False\<rparr>
            in if job w1 = NoJob then shutdown_fn sid False None w1 m
               else (let t = timeout_truthy timeout;
                         w2 = w1\<lparr>listeners := listeners w1 @
                                  [(Job_complete, sid, t), (Job_failed, sid, t),
                                   (Job_failed_attempt, sid, t)]\<rparr>
                     in (w2, m, case timeout of None \<Rightarrow> []
                                | Some n \<Rightarrow> if n \<noteq> 0 then [SetTimeout sid n (K_timer sid)]
                                            else []))))"

text \<open>The function handed to \<^verbatim>\<open>setTimeout\<close>.\<close>

definition timer_fire :: "nat \<Rightarrow> worker \<Rightarrow> module \<Rightarrow> turn" where
  "timer_fire sid w m = (case job w of
       NoJob \<Rightarrow> shutdown_fn sid True None w m
     | Reserving \<Rightarrow> (w, m, [])
     | Holding j \<Rightarrow> failed j (Structured True ''Shutdown'') (ShutdownFn sid) w m)"

section \<open>Resolving asynchronous operations\<close>

text \<open>
  What the environment answers when it resolves a pending operation: the error of the
  blocking pop; the error and \<^verbatim>\<open>zrange\<close> reply of the transaction; the error and job of
  \<^verbatim>\<open>Job.get\<close>; nothing, for a state transition, a timer or a tick; the four arguments of
  the \<^verbatim>\<open>attempt\<close> callback; the elapsed time and the two arguments of \<^verbatim>\<open>done\<close>.
\<close>

datatype reply =
    R_blpop "js_err option"
  | R_exec "js_err option" "nat list"
  | R_get "js_err option" "Job option"
  | R_unit
  | R_attempt "js_err option" nat nat nat
  | R_done int "js_err option" "js_value option"

definition dispatch :: "cont \<Rightarrow> reply \<Rightarrow> worker \<Rightarrow> module \<Rightarrow> turn option" where
  "dispatch k r w m = (case k of
       K_blpop p cid \<Rightarrow> (case r of R_blpop err \<Rightarrow> Some (with_fn p (blpop_cb p cid err w m))
                        | _ \<Rightarrow> None)
     | K_zpop p \<Rightarrow> (case r of
           R_exec err res \<Rightarrow>
             Some (with_fn p (zpop_cb p (fst (zpop_exec_cb err res))
                                        (snd (zpop_exec_cb err res)) w m))
         | _ \<Rightarrow> None)
     | K_get p \<Rightarrow> (case r of R_get err j \<Rightarrow> Some (start_cb p err j w m) | _ \<Rightarrow> None)
     | K_active p j \<Rightarrow> (case r of R_unit \<Rightarrow> Some (active_cb p j w m) | _ \<Rightarrow> None)
     | K_done p j \<Rightarrow> (case r of
           R_done elapsed err result \<Rightarrow> Some (done_cb p j elapsed err result w m)
         | _ \<Rightarrow> None)
     | K_failed p j \<Rightarrow> (case r of R_unit \<Rightarrow> Some (failed_cb p j w m) | _ \<Rightarrow> None)
     | K_failed_attempt p j \<Rightarrow> (case r of
           R_attempt aerr remaining attempts mx \<Rightarrow>
             Some (failed_attempt_cb p j aerr remaining attempts mx w m)
         | _ \<Rightarrow> None)
     | K_emit_failed_attempt j attempts \<Rightarrow> (case r of
           R_unit \<Rightarrow> Some (emit_failed_attempt_cb j attempts w m)
         | _ \<Rightarrow> None)
     | K_complete j result \<Rightarrow> (case r of R_unit \<Rightarrow> Some (complete_cb j result w m)
                              | _ \<Rightarrow> None)
     | K_complete_attempt j result \<Rightarrow> (case r of
           R_attempt aerr remaining attempts mx \<Rightarrow> Some (complete_attempt_cb j result w m)
         | _ \<Rightarrow> None)
     | K_start p \<Rightarrow> (case r of R_unit \<Rightarrow> Some (start p w m) | _ \<Rightarrow> None)
     | K_timer sid \<Rightarrow> (case r of R_unit \<Rightarrow> Some (timer_fire sid w m) | _ \<Rightarrow> None))"

text \<open>The callback an operation leaves pending, if any.\<close>

definition pending_of :: "action \<Rightarrow> cont list" where
  "pending_of a = (case a of
       Broker (Blpop c k x) \<Rightarrow> [x]
     | Broker (Zpop k x) \<Rightarrow> [x]
     | OnJob (JobGet i x) \<Rightarrow> [x]
     | OnJob (JobActive j x) \<Rightarrow> [x]
     | OnJob (JobFailed j x) \<Rightarrow> [x]
     | OnJob (JobAttempt j x) \<Rightarrow> [x]
     | OnJob (JobDelayed j x) \<Rightarrow> [x]
     | OnJob (JobInactive j x) \<Rightarrow> [x]
     | OnJob (JobComplete j x) \<Rightarrow> [x]
     | NextTick x \<Rightarrow> [x]
     | InvokeProcessor j x \<Rightarrow> [x]
     | SetTimeout sid n x \<Rightarrow> [x]
     | _ \<Rightarrow> [])"

text \<open>
  A process: its workers (numbered by position), the module's table they share, the
  callbacks pending for each worker, and a log of the operations issued and the
  callbacks resolved, in order, each with the number of its worker.
\<close>

datatype log_item = Issued action | Resolved cont

record config =
  workers :: "worker list"
  shared :: module
  pending :: "(nat \<times> cont) list"
  log :: "(nat \<times> log_item) list"

definition cleared :: "action list \<Rightarrow> cont \<Rightarrow> bool" where
  "cleared acts k = (case k of K_timer sid \<Rightarrow> ClearTimeout sid \<in> set acts | _ \<Rightarrow> False)"

definition absorb :: "nat \<Rightarrow> config \<Rightarrow> turn \<Rightarrow> config" where
  "absorb i c r = (case r of (w, m, acts) \<Rightarrow>
     \<lparr>workers = (workers c)[i := w],
      shared = m,
      pending = filter (\<lambda>(i', k). \<not> (i' = i \<and> cleared acts k)) (pending c)
                @ map (Pair i) (concat (map pending_of acts)),
      log = log c @ map (\<lambda>a. (i, Issued a)) acts\<rparr>)"

text \<open>
  One step of the environment on worker \<open>i\<close>: it resolves a pending callback with a
  reply, or somebody outside calls \<^verbatim>\<open>start\<close>, \<^verbatim>\<open>shutdown\<close>, the control object's
  \<^verbatim>\<open>resume\<close>, or registers a listener for \<^verbatim>\<open>error\<close>.
\<close>

datatype stimulus =
    Resolve nat cont reply
  | CallStart nat procref
  | CallShutdown nat nat "int option"
  | CallCtxResume nat procref
  | OnError nat

fun step :: "stimulus \<Rightarrow> config \<Rightarrow> config option" where
  "step (Resolve i k r) c =
     (if i < length (workers c) \<and> (i, k) \<in> set (pending c) then
        (case dispatch k r (workers c ! i) (shared c) of
           None \<Rightarrow> None
         | Some res \<Rightarrow> Some (absorb i (c\<lparr>pending := remove1 (i, k) (pending c),
                                         log := log c @ [(i, Resolved k)]\<rparr>) res))
      else None)"
| "step (CallStart i p) c =
     (if i < length (workers c)
      then Some (absorb i c (start p (workers c ! i) (shared c))) else None)"
| "step (CallShutdown i sid t) c =
     (if i < length (workers c)
      then Some (absorb i c (shutdown sid t (workers c ! i) (shared c))) else None)"
| "step (CallCtxResume i p) c =
     (if i < length (workers c)
      then Some (absorb i c (ctx_resume p (workers c ! i) (shared c))) else None)"
| "step (OnError i) c =
     (if i < length (workers c)
      then Some (c\<lparr>workers := (workers c)[i := (workers c ! i)\<lparr>error_listener := True\<rparr>]\<rparr>)
      else None)"

fun run :: "stimulus list \<Rightarrow> config \<Rightarrow> config option" where
  "run [] c = Some c"
| "run (x # xs) c = (case step x c of None \<Rightarrow> None | Some c' \<Rightarrow> run xs c')"

text \<open>A process with one fresh worker for each of the given types.\<close>

definition init :: "string list \<Rightarrow> config" where
  "init ts = \<lparr>workers = map Worker ts, shared = \<lparr>clients = [], next_client = 0\<rparr>,
              pending = [], log = []\<rparr>"

text \<open>The actions that emit an event, on the worker or on the per-job bus.\<close>

definition emits_event :: "action \<Rightarrow> bool" where
  "emits_event a = (case a of EmitError i j \<Rightarrow> True | Emit ev j \<Rightarrow> True
                    | EventsEmit i b \<Rightarrow> True | _ \<Rightarrow> False)"

section \<open>Sample inputs\<close>

text \<open>
  A job without backoff; a job whose custom backoff function throws; a result that
  serializes; a result with a cycle, which \<^verbatim>\<open>JSON.stringify\<close> rejects and string
  concatenation renders as \<^verbatim>\<open>[object Object]\<close>; an error of the broker; a fresh table.
\<close>

definition job42 :: Job where
  "job42 = \<lparr>job_id = 42, backoff = False, delay = 0, getBackoffImpl = None,
             removeOnComplete = False\<rparr>"

definition job7 :: Job where
  "job7 = \<lparr>job_id = 7, backoff = True, delay = 1000,
            getBackoffImpl = Some (\<lambda>attempts. Inl (ErrorObject (Some ''at backoff'') ''boom'')),
            removeOnComplete = False\<rparr>"

definition sent :: js_value where
  "sent = \<lparr>truthy = True, json_stringify = Some ''{}'',
            to_string = Some ''[object Object]''\<rparr>"

definition cyclic :: js_value where
  "cyclic = \<lparr>truthy = True, json_stringify = None, to_string = Some ''[object Object]''\<rparr>"

definition lost :: js_err where
  "lost = ErrorObject None ''Connection lost''"

definition no_clients :: module where
  "no_clients = \<lparr>clients = [], next_client = 0\<rparr>"

section \<open>Basic facts about the handlers\<close>

lemma start_stopped: "\<not> running w \<Longrightarrow> start p w m = (w\<lparr>job := NoJob\<rparr>, m, [])"
  by (simp add: start_def)

lemma start_running:
  "running w \<Longrightarrow> start p w m = (case map_of (clients m) (wtype w) of
      Some c \<Rightarrow> (w\<lparr>job := NoJob\<rparr>, m, [Broker (Blpop c (jobs_key w) (K_blpop p c))])
    | None \<Rightarrow> (w\<lparr>job := NoJob\<rparr>,
               m\<lparr>clients := (wtype w, next_client m) # clients m,
                 next_client := Suc (next_client m)\<rparr>,
               [Broker (CreateClient (next_client m)),
                Broker (Blpop (next_client m) (jobs_key w) (K_blpop p (next_client m)))]))"
  by (simp add: start_def getJob_def with_fn_def jobs_key_def split: option.splits)

lemma start_ignores_job: "start p (w\<lparr>job := c\<rparr>) m = start p w m"
  by (simp add: start_def)

lemma done_cb_stored:
  assumes "\<not> err_truthy err"
    and "(case result of None \<Rightarrow> Some []
          | Some v \<Rightarrow> if truthy v then store_result j v else Some []) = Some a2"
  shows "done_cb p j elapsed err result w m =
     then_start p (w, m,
      [OnJob (AssignDuration j elapsed), OnJob (JobSet j ''duration'' (FNum elapsed))]
      @ a2 @ [OnJob (JobComplete j (K_complete j result))])"
  using assms by (simp add: done_cb_def)

lemma map_of_filter_other: "map_of (filter (\<lambda>(t, c). t \<noteq> k) xs) k = None"
  by (induction xs) auto

lemma shutdown_fn_runs:
  "\<not> older_job_event jarg (job w) \<Longrightarrow>
   shutdown_fn sid tm jarg w m =
     (w\<lparr>job := NoJob, listeners := [], error_listener := False\<rparr>,
      m\<lparr>clients := filter (\<lambda>(t, c). t \<noteq> wtype w) (clients m)\<rparr>,
      (if tm then [ClearTimeout sid] else [])
      @ [RemoveAllListeners, Broker (Lpush OwnClient (jobs_key w))]
      @ (case map_of (clients m) (wtype w) of None \<Rightarrow> [] | Some c \<Rightarrow> [Broker (Quit c)])
      @ [Callback sid])"
  by (simp add: shutdown_fn_def)

section \<open>The claims\<close>

subsection \<open>C1: re-arming after a successful job\<close>

text \<open>
  C1 says that after a job completes successfully the worker re-arms the claim loop only
  once the transition to complete has resolved. The \<^verbatim>\<open>done\<close> callback of
  \<^verbatim>\<open>process\<close> calls \<^verbatim>\<open>job.complete(...)\<close> and then, in the same turn,
  \<^verbatim>\<open>self.start(fn)\<close>. The run below claims job 42 and lets the processor call
  \<^verbatim>\<open>done(null, result)\<close>: the log ends with the transition to complete being issued
  and the next blocking wait being issued right after it, \<^verbatim>\<open>self.job\<close> is cleared,
  and the callback of \<^verbatim>\<open>job.complete\<close> is still pending. (\<^verbatim>\<open>failed\<close>, by contrast,
  calls \<^verbatim>\<open>self.start(fn)\<close> inside the callbacks of \<^verbatim>\<open>job.failed\<close> and
  \<^verbatim>\<open>job.attempt\<close>.)
\<close>

theorem rearm_precedes_complete:
  "run [CallStart 0 Processor,
        Resolve 0 (K_blpop Processor 0) (R_blpop None),
        Resolve 0 (K_zpop Processor) (R_exec None [42]),
        Resolve 0 (K_get Processor) (R_get None (Some job42)),
        Resolve 0 (K_active Processor job42) R_unit,
        Resolve 0 (K_done Processor job42) (R_done 5 None (Some sent))] (init [''mail''])
   = Some \<lparr>workers = [\<lparr>wtype = ''mail'', running = True, job = NoJob, listeners = [],
                         error_listener = False\<rparr>],
            shared = \<lparr>clients = [(''mail'', 0)], next_client = 1\<rparr>,
            pending = [(0, K_complete job42 (Some sent)), (0, K_blpop Processor 0)],
            log = [(0, Issued (Broker (CreateClient 0))),
                   (0, Issued (Broker (Blpop 0 (Key ''mail:jobs'') (K_blpop Processor 0)))),
                   (0, Resolved (K_blpop Processor 0)),
                   (0, Issued (Broker (Zpop (Key ''jobs:mail:inactive'') (K_zpop Processor)))),
                   (0, Resolved (K_zpop Processor)),
                   (0, Issued (OnJob (JobGet 42 (K_get Processor)))),
                   (0, Resolved (K_get Processor)),
                   (0, Issued (OnJob (JobActive job42 (K_active Processor job42)))),
                   (0, Resolved (K_active Processor job42)),
                   (0, Issued (InvokeProcessor job42 (K_done Processor job42))),
                   (0, Resolved (K_done Processor job42)),
                   (0, Issued (OnJob (AssignDuration job42 5))),
                   (0, Issued (OnJob (JobSet job42 ''duration'' (FNum 5)))),
                   (0, Issued (OnJob (AssignResult job42 sent))),
                   (0, Issued (OnJob (JobSet job42 ''result'' (FText ''{}'')))),
                   (0, Issued (OnJob (JobComplete job42 (K_complete job42 (Some sent))))),
                   (0, Issued (Broker (Blpop 0 (Key ''mail:jobs'') (K_blpop Processor 0))))]\<rparr>"
  by (simp add: init_def Worker_def absorb_def cleared_def pending_of_def dispatch_def
      start_def getJob_def with_fn_def then_start_def jobs_key_def inactive_key_def
      blpop_cb_def zpop_cb_def zpop_exec_cb_def start_cb_def process_def active_cb_def
      done_cb_def store_result_def err_truthy_def sent_def)

subsection \<open>C2: a second call of shutdown\<close>

text \<open>
  C2 says that a second \<^verbatim>\<open>shutdown\<close>, after a first one has completed, calls its callback
  and does nothing on the broker. Counterexample: a fresh worker is shut down twice, with
  no connection in the table. The first call completes at once (it calls the callback 1
  and leaves \<^verbatim>\<open>running\<close> false); the second call runs the wrapper \<^verbatim>\<open>_fn\<close> again,
  which pushes a token onto \<^verbatim>\<open>mail:jobs\<close> before it calls the callback 2.
\<close>

theorem second_shutdown_pushes_token:
  "shutdown 1 None (Worker ''mail'') no_clients =
     ((Worker ''mail'')\<lparr>running := False\<rparr>, no_clients,
      [RemoveAllListeners, Broker (Lpush OwnClient (Key ''mail:jobs'')), Callback 1])
   \<and> shutdown 2 None ((Worker ''mail'')\<lparr>running := False\<rparr>) no_clients =
     ((Worker ''mail'')\<lparr>running := False\<rparr>, no_clients,
      [RemoveAllListeners, Broker (Lpush OwnClient (Key ''mail:jobs'')), Callback 2])"
  by (simp add: shutdown_def shutdown_fn_def older_job_event_def Worker_def jobs_key_def
      no_clients_def)

text \<open>
  C2 as amended: on a worker that is no longer running (a first shutdown has set
  \<^verbatim>\<open>running\<close> to false and completed), whatever the table of connections holds by
  then, \<^verbatim>\<open>shutdown\<close> runs the wrapper \<^verbatim>\<open>_fn\<close>: it removes all listeners and clears
  \<^verbatim>\<open>self.job\<close>, pushes one recovery token onto the notification list through the
  worker's own connection, quits the connection the table holds for the worker's type if
  it holds one (a worker of the same type may have created one since the first shutdown),
  removes the type from the table, and calls its callback.
\<close>

theorem second_shutdown:
  assumes "\<not> running w"
  shows "shutdown sid t w m =
           (w\<lparr>job := NoJob, listeners := [], error_listener := False\<rparr>,
            m\<lparr>clients := filter (\<lambda>(t, c). t \<noteq> wtype w) (clients m)\<rparr>,
            [RemoveAllListeners, Broker (Lpush OwnClient (jobs_key w))]
            @ (case map_of (clients m) (wtype w) of None \<Rightarrow> [] | Some c \<Rightarrow> [Broker (Quit c)])
            @ [Callback sid])"
  using assms by (simp add: shutdown_def shutdown_fn_def older_job_event_def)

text \<open>
  Witness for C2: a worker of type \<^verbatim>\<open>mail\<close> is shut down; a second worker of the same
  type starts and creates connection 0; the second shutdown of the first worker quits it.
\<close>

theorem second_shutdown_witness:
  "shutdown 2 None (fst (shutdown 1 None (Worker ''mail'') no_clients))
     (fst (snd (start Processor (Worker ''mail'')
                  (fst (snd (shutdown 1 None (Worker ''mail'') no_clients)))))) =
     ((Worker ''mail'')\<lparr>running := False\<rparr>, \<lparr>clients = [], next_client = 1\<rparr>,
      [RemoveAllListeners, Broker (Lpush OwnClient (Key ''mail:jobs'')), Broker (Quit 0),
       Callback 2])"
  using second_shutdown[of "fst (shutdown 1 None (Worker ''mail'') no_clients)" 2 None
      "fst (snd (start Processor (Worker ''mail'')
                  (fst (snd (shutdown 1 None (Worker ''mail'') no_clients)))))"]
  by (simp add: Worker_def no_clients_def shutdown_def shutdown_fn_def older_job_event_def
      start_running jobs_key_def)

subsection \<open>C3: the grace timer\<close>

text \<open>
  C3 says that the grace timer, firing while a job is in flight, fails the job with
  \<^verbatim>\<open>{error: true, message: "Shutdown"}\<close> and that the listener of the shutdown is
  invoked on the resulting terminal transition. The timer function calls
  \<^verbatim>\<open>self.failed(self.job, {...}, _fn)\<close> (its comment: fail it and call \<^verbatim>\<open>_fn\<close> when
  complete), but \<^verbatim>\<open>failed\<close> hands its third argument to \<^verbatim>\<open>self.start\<close> only, and
  when \<^verbatim>\<open>job.attempt\<close> reports an error it returns after \<^verbatim>\<open>self.error\<close>. In the run
  below the queue listens for \<^verbatim>\<open>error\<close>, job 42 is in flight and its processor never
  calls \<^verbatim>\<open>done\<close>, \<^verbatim>\<open>shutdown\<close> is called with 500 ms, the timer fires, the transition
  to failed resolves and the attempts come back with an error of the broker. The log ends
  with the \<^verbatim>\<open>error\<close> event: no lifecycle event is emitted, the callback 1 of
  \<^verbatim>\<open>shutdown\<close> is not called, its listeners stay registered, and nothing of the
  shutdown is pending.
\<close>

theorem grace_timer_listener_not_invoked:
  "run [OnError 0,
        CallStart 0 Processor,
        Resolve 0 (K_blpop Processor 0) (R_blpop None),
        Resolve 0 (K_zpop Processor) (R_exec None [42]),
        Resolve 0 (K_get Processor) (R_get None (Some job42)),
        Resolve 0 (K_active Processor job42) R_unit,
        CallShutdown 0 1 (Some 500),
        Resolve 0 (K_timer 1) R_unit,
        Resolve 0 (K_failed (ShutdownFn 1) job42) R_unit,
        Resolve 0 (K_failed_attempt (ShutdownFn 1) job42) (R_attempt (Some lost) 0 0 0)]
       (init [''mail''])
   = Some \<lparr>workers = [\<lparr>wtype = ''mail'', running = False, job = Holding job42,
                         listeners = [(Job_complete, 1, True), (Job_failed, 1, True),
                                      (Job_failed_attempt, 1, True)],
                         error_listener = True\<rparr>],
            shared = \<lparr>clients = [(''mail'', 0)], next_client = 1\<rparr>,
            pending = [(0, K_done Processor job42)],
            log = [(0, Issued (Broker (CreateClient 0))),
                   (0, Issued (Broker (Blpop 0 (Key ''mail:jobs'') (K_blpop Processor 0)))),
                   (0, Resolved (K_blpop Processor 0)),
                   (0, Issued (Broker (Zpop (Key ''jobs:mail:inactive'') (K_zpop Processor)))),
                   (0, Resolved (K_zpop Processor)),
                   (0, Issued (OnJob (JobGet 42 (K_get Processor)))),
                   (0, Resolved (K_get Processor)),
                   (0, Issued (OnJob (JobActive job42 (K_active Processor job42)))),
                   (0, Resolved (K_active Processor job42)),
                   (0, Issued (InvokeProcessor job42 (K_done Processor job42))),
                   (0, Issued (SetTimeout 1 500 (K_timer 1))),
                   (0, Resolved (K_timer 1)),
                   (0, Issued (OnJob (JobError job42 (Structured True ''Shutdown'')))),
                   (0, Issued (OnJob (JobFailed job42 (K_failed (ShutdownFn 1) job42)))),
                   (0, Resolved (K_failed (ShutdownFn 1) job42)),
                   (0, Issued (OnJob (JobAttempt job42 (K_failed_attempt (ShutdownFn 1) job42)))),
                   (0, Resolved (K_failed_attempt (ShutdownFn 1) job42)),
                   (0, Issued (EmitError (RawValue lost) (Some job42)))]\<rparr>"
  by (simp add: init_def Worker_def absorb_def cleared_def pending_of_def dispatch_def
      start_def getJob_def with_fn_def jobs_key_def inactive_key_def
      blpop_cb_def zpop_cb_def zpop_exec_cb_def start_cb_def process_def active_cb_def
      shutdown_def timeout_truthy_def timer_fire_def failed_def failed_cb_def
      failed_attempt_cb_def error_def error_payload_def err_truthy_def lost_def)

subsection \<open>C4: when the temporary value is set\<close>

text \<open>
  C4 says that the worker marks \<^verbatim>\<open>self.job\<close> as reserving before it initiates the
  blocking wait, so that the mark holds while the worker is parked. Counterexample:
  \<^verbatim>\<open>start\<close> on a fresh worker issues the blocking pop and leaves \<^verbatim>\<open>self.job\<close> at
  \<^verbatim>\<open>null\<close>.
\<close>

theorem parked_without_sentinel:
  "start Processor (Worker ''mail'') no_clients =
     (Worker ''mail'', \<lparr>clients = [(''mail'', 0)], next_client = 1\<rparr>,
      [Broker (CreateClient 0), Broker (Blpop 0 (Key ''mail:jobs'') (K_blpop Processor 0))])
   \<and> job (fst (start Processor (Worker ''mail'') no_clients)) \<noteq> Reserving"
  by (simp add: start_running Worker_def jobs_key_def no_clients_def)

text \<open>
  C4 as amended: \<^verbatim>\<open>start\<close> on a running worker resets \<^verbatim>\<open>self.job\<close> to \<^verbatim>\<open>null\<close> and
  then initiates the blocking wait on the notification list (creating the connection of
  the type first when the table holds none), so \<^verbatim>\<open>self.job\<close> is \<^verbatim>\<open>null\<close>, not the
  temporary value, at the moment the wait is initiated; the worker sets \<^verbatim>\<open>self.job\<close> to
  the temporary value in the callback of the wait, when the wait has returned without an
  error and the worker is still running, right before it initiates the atomic pop on the
  inactive set.
\<close>

theorem sentinel_set_after_wait:
  assumes "running w" and "running w'" and "\<not> err_truthy err"
  shows "start p w m = (case map_of (clients m) (wtype w) of
              Some c \<Rightarrow> (w\<lparr>job := NoJob\<rparr>, m,
                         [Broker (Blpop c (jobs_key w) (K_blpop p c))])
            | None \<Rightarrow> (w\<lparr>job := NoJob\<rparr>,
                       m\<lparr>clients := (wtype w, next_client m) # clients m,
                         next_client := Suc (next_client m)\<rparr>,
                       [Broker (CreateClient (next_client m)),
                        Broker (Blpop (next_client m) (jobs_key w) (K_blpop p (next_client m)))]))
       \<and> blpop_cb p cid err w' m' =
           (w'\<lparr>job := Reserving\<rparr>, m', [Broker (Zpop (inactive_key w') (K_zpop p))], None)"
  using assms by (simp add: start_running blpop_cb_def)

text \<open>Witness for C4: a fresh worker is started and its blocking wait returns.\<close>

theorem sentinel_set_after_wait_witness:
  "start Processor (Worker ''mail'') no_clients =
     (Worker ''mail'', \<lparr>clients = [(''mail'', 0)], next_client = 1\<rparr>,
      [Broker (CreateClient 0), Broker (Blpop 0 (Key ''mail:jobs'') (K_blpop Processor 0))])
   \<and> blpop_cb Processor 0 None (Worker ''mail'') \<lparr>clients = [(''mail'', 0)], next_client = 1\<rparr> =
       ((Worker ''mail'')\<lparr>job := Reserving\<rparr>, \<lparr>clients = [(''mail'', 0)], next_client = 1\<rparr>,
        [Broker (Zpop (Key ''jobs:mail:inactive'') (K_zpop Processor))], None)"
  using sentinel_set_after_wait[of "Worker ''mail''" "Worker ''mail''" None Processor no_clients
      0 "\<lparr>clients = [(''mail'', 0)], next_client = 1\<rparr>"]
  by (simp add: Worker_def err_truthy_def jobs_key_def inactive_key_def no_clients_def)

subsection \<open>C5: waking up with an error or after a stop\<close>

text \<open>
  C5 says that on such a wake-up the worker pushes a recovery token and returns the error
  or a shutdown indication, without the pop on the sorted set. Counterexample: the wait
  returns without an error on a worker that has been stopped meanwhile. The token is
  pushed and \<^verbatim>\<open>fn\<close> is called with no error and no job, which is what it is called with
  when the inactive set turns out empty: nothing indicates the shutdown.
\<close>

theorem wakeup_after_stop_gives_no_indication:
  "blpop_cb Processor 0 None ((Worker ''mail'')\<lparr>running := False\<rparr>) no_clients =
     ((Worker ''mail'')\<lparr>running := False\<rparr>, no_clients,
      [Broker (Lpush (BlockingClient 0) (Key ''mail:jobs''))], Some (None, None))
   \<and> snd (snd (snd (zpop_cb Processor None None (Worker ''mail'') no_clients)))
       = Some (None, None)"
  by (simp add: blpop_cb_def zpop_cb_def err_truthy_def Worker_def jobs_key_def)

text \<open>
  C5 as amended: when the blocking wait returns with an error, or the worker is no longer
  running on wake-up, the callback pushes one recovery token onto the notification list
  through the blocking connection and calls \<^verbatim>\<open>fn\<close> with the error of the wait as it is
  (none when the wait itself succeeded) and no job; it leaves the worker's fields and the
  table as they are and does not issue the pop on the sorted set.
\<close>

theorem wakeup_error_or_stopped:
  assumes "err_truthy err \<or> \<not> running w"
  shows "blpop_cb p cid err w m =
           (w, m, [Broker (Lpush (BlockingClient cid) (jobs_key w))], Some (err, None))"
  using assms by (auto simp add: blpop_cb_def)

text \<open>Witness for C5: the wait fails with a connection error on a running worker.\<close>

theorem wakeup_error_or_stopped_witness:
  "blpop_cb Processor 0 (Some lost) (Worker ''mail'') no_clients =
     (Worker ''mail'', no_clients, [Broker (Lpush (BlockingClient 0) (Key ''mail:jobs''))],
      Some (Some lost, None))"
  using wakeup_error_or_stopped[of "Some lost" "Worker ''mail''" Processor 0 no_clients]
  by (simp add: err_truthy_def jobs_key_def Worker_def lost_def)

subsection \<open>C6: a notification without a job\<close>

text \<open>
  C6: the notification wait succeeded, the transaction of \<^verbatim>\<open>zpop\<close> returns no error and
  an empty range, so \<^verbatim>\<open>zpop\<close> passes on no id. The callback in \<^verbatim>\<open>getJob\<close> resets
  \<^verbatim>\<open>self.job\<close> to \<^verbatim>\<open>null\<close> and calls \<^verbatim>\<open>fn\<close> with no error and no job; the whole turn
  issues nothing but the deferred call of \<^verbatim>\<open>start\<close>. That call issues the next blocking
  pop on the notification list when the worker is running (and nothing when it has been
  stopped), and it emits no event.
\<close>

theorem drained_set_reparks:
  "zpop_exec_cb None [] = (None, None)
   \<and> zpop_cb p None None w m = (w\<lparr>job := NoJob\<rparr>, m, [], Some (None, None))
   \<and> dispatch (K_zpop p) (R_exec None []) w m
       = Some (w\<lparr>job := NoJob\<rparr>, m, [NextTick (K_start p)])
   \<and> dispatch (K_start p) R_unit (w\<lparr>job := NoJob\<rparr>) m = Some (start p w m)
   \<and> snd (snd (start p w m)) =
       (if running w
        then (case map_of (clients m) (wtype w) of
                Some c \<Rightarrow> [Broker (Blpop c (jobs_key w) (K_blpop p c))]
              | None \<Rightarrow> [Broker (CreateClient (next_client m)),
                         Broker (Blpop (next_client m) (jobs_key w) (K_blpop p (next_client m)))])
        else [])
   \<and> filter emits_event (snd (snd (start p w m))) = []"
proof -
  have reset: "dispatch (K_zpop p) (R_exec None []) w m
                 = Some (w\<lparr>job := NoJob\<rparr>, m, [NextTick (K_start p)])"
    by (simp add: dispatch_def zpop_exec_cb_def zpop_cb_def with_fn_def start_cb_def
        err_truthy_def)
  have tick: "dispatch (K_start p) R_unit (w\<lparr>job := NoJob\<rparr>) m = Some (start p w m)"
    by (simp add: dispatch_def start_ignores_job)
  have acts: "snd (snd (start p w m)) =
       (if running w
        then (case map_of (clients m) (wtype w) of
                Some c \<Rightarrow> [Broker (Blpop c (jobs_key w) (K_blpop p c))]
              | None \<Rightarrow> [Broker (CreateClient (next_client m)),
                         Broker (Blpop (next_client m) (jobs_key w) (K_blpop p (next_client m)))])
        else [])"
    by (simp add: start_running start_stopped split: option.splits)
  have quiet: "filter emits_event (snd (snd (start p w m))) = []"
    unfolding acts by (simp add: emits_event_def split: option.splits)
  show ?thesis
    using reset tick acts quiet
    by (simp add: zpop_exec_cb_def zpop_cb_def err_truthy_def)
qed

text \<open>Witness for C6: a running worker in the middle of a claim, the set drained.\<close>

theorem drained_set_reparks_witness:
  "dispatch (K_zpop Processor) (R_exec None []) ((Worker ''mail'')\<lparr>job := Reserving\<rparr>)
      \<lparr>clients = [(''mail'', 0)], next_client = 1\<rparr>
     = Some (Worker ''mail'', \<lparr>clients = [(''mail'', 0)], next_client = 1\<rparr>,
             [NextTick (K_start Processor)])
   \<and> dispatch (K_start Processor) R_unit (Worker ''mail'')
        \<lparr>clients = [(''mail'', 0)], next_client = 1\<rparr>
     = Some (Worker ''mail'', \<lparr>clients = [(''mail'', 0)], next_client = 1\<rparr>,
             [Broker (Blpop 0 (Key ''mail:jobs'') (K_blpop Processor 0))])"
  using drained_set_reparks[of Processor "(Worker ''mail'')\<lparr>job := Reserving\<rparr>"
      "\<lparr>clients = [(''mail'', 0)], next_client = 1\<rparr>"]
  by (simp add: Worker_def start_running jobs_key_def)

subsection \<open>C7: a custom backoff function that throws\<close>

text \<open>
  C7 says that, when the custom backoff function throws, the worker emits \<^verbatim>\<open>error\<close>,
  falls back to the stored delay and still moves the job to delayed. The \<^verbatim>\<open>catch\<close>
  block calls \<^verbatim>\<open>self.error(e, job)\<close>, which emits \<^verbatim>\<open>error\<close> on the worker; on a
  worker without a listener for \<^verbatim>\<open>error\<close> (the constructor registers none, and the
  wrapper \<^verbatim>\<open>_fn\<close> of a shutdown removes all listeners) the emitter throws out of the
  \<^verbatim>\<open>catch\<close> block. In the run below a fresh worker claims job 7, whose backoff function
  throws; the processor fails it and the attempts come back with two remaining. The turn
  ends with the exception: neither the delay nor the transition to delayed is issued,
  \<^verbatim>\<open>start\<close> is not called, and nothing is pending.
\<close>

theorem backoff_error_unheard:
  "run [CallStart 0 Processor,
        Resolve 0 (K_blpop Processor 0) (R_blpop None),
        Resolve 0 (K_zpop Processor) (R_exec None [7]),
        Resolve 0 (K_get Processor) (R_get None (Some job7)),
        Resolve 0 (K_active Processor job7) R_unit,
        Resolve 0 (K_done Processor job7) (R_done 5 (Some lost) None),
        Resolve 0 (K_failed Processor job7) R_unit,
        Resolve 0 (K_failed_attempt Processor job7) (R_attempt None 2 1 3)]
       (init [''mail''])
   = Some \<lparr>workers = [\<lparr>wtype = ''mail'', running = True, job = Holding job7, listeners = [],
                         error_listener = False\<rparr>],
            shared = \<lparr>clients = [(''mail'', 0)], next_client = 1\<rparr>,
            pending = [],
            log = [(0, Issued (Broker (CreateClient 0))),
                   (0, Issued (Broker (Blpop 0 (Key ''mail:jobs'') (K_blpop Processor 0)))),
                   (0, Resolved (K_blpop Processor 0)),
                   (0, Issued (Broker (Zpop (Key ''jobs:mail:inactive'') (K_zpop Processor)))),
                   (0, Resolved (K_zpop Processor)),
                   (0, Issued (OnJob (JobGet 7 (K_get Processor)))),
                   (0, Resolved (K_get Processor)),
                   (0, Issued (OnJob (JobActive job7 (K_active Processor job7)))),
                   (0, Resolved (K_active Processor job7)),
                   (0, Issued (InvokeProcessor job7 (K_done Processor job7))),
                   (0, Resolved (K_done Processor job7)),
                   (0, Issued (OnJob (JobError job7 lost))),
                   (0, Issued (OnJob (JobFailed job7 (K_failed Processor job7)))),
                   (0, Resolved (K_failed Processor job7)),
                   (0, Issued (OnJob (JobAttempt job7 (K_failed_attempt Processor job7)))),
                   (0, Resolved (K_failed_attempt Processor job7)),
                   (0, Issued Uncaught)]\<rparr>"
proof -
  have thrown: "failed_attempt_cb Processor job7 None 2 a x w m = (w, m, [Uncaught])"
    if "\<not> error_listener w" for a x w m
    using that
    by (simp add: failed_attempt_cb_def backoff_delay_def error_def err_truthy_def job7_def)
  show ?thesis
    by (simp add: init_def Worker_def absorb_def cleared_def pending_of_def dispatch_def
        start_def getJob_def with_fn_def jobs_key_def inactive_key_def
        blpop_cb_def zpop_cb_def zpop_exec_cb_def start_cb_def process_def active_cb_def
        done_cb_def failed_def failed_cb_def err_truthy_def lost_def thrown)
qed

subsection \<open>C8: a result that cannot be serialized\<close>

text \<open>
  C8 says that the marker stored for such a result has the message
  \<^verbatim>\<open>Invalid JSON Result: <stringified>\<close>. Counterexample: for a cyclic object the message
  stored is \<^verbatim>\<open>Invalid JSON Result: \<close> followed by \<^verbatim>\<open>[object Object]\<close> between double
  quotes, which is not \<^verbatim>\<open>Invalid JSON Result: [object Object]\<close>.
\<close>

theorem marker_message_is_quoted:
  "snd (snd (done_cb Processor job42 5 None (Some cyclic)
               ((Worker ''mail'')\<lparr>running := False\<rparr>) no_clients)) =
     [OnJob (AssignDuration job42 5), OnJob (JobSet job42 ''duration'' (FNum 5)),
      OnJob (AssignResult job42 cyclic),
      OnJob (JobSet job42 ''result''
        (FMarker True (''Invalid JSON Result: '' @ [CHR 0x22] @ ''[object Object]'' @ [CHR 0x22]))),
      OnJob (JobComplete job42 (K_complete job42 (Some cyclic)))]
   \<and> ''Invalid JSON Result: '' @ [CHR 0x22] @ ''[object Object]'' @ [CHR 0x22]
       \<noteq> ''Invalid JSON Result: [object Object]''"
  by (simp add: done_cb_def then_start_def err_truthy_def cyclic_def store_result_def
      dquote_def start_stopped)

text \<open>
  C8 as amended: when \<^verbatim>\<open>done\<close> is called without an error and with a truthy result that
  \<^verbatim>\<open>JSON.stringify\<close> rejects and that string concatenation renders as \<open>s\<close>, the worker
  stores under \<^verbatim>\<open>result\<close> the serialized marker \<^verbatim>\<open>{error: true, message: m}\<close> where
  \<open>m\<close> is \<^verbatim>\<open>Invalid JSON Result: \<close> followed by \<open>s\<close> between double quotes, and it
  issues the transition to complete (and then calls \<^verbatim>\<open>start\<close>).
\<close>

theorem unserializable_result_marker:
  assumes "\<not> err_truthy err" and "truthy v" and "json_stringify v = None"
    and "to_string v = Some s"
  shows "done_cb p j elapsed err (Some v) w m =
           (fst (start p w m), fst (snd (start p w m)),
            [OnJob (AssignDuration j elapsed), OnJob (JobSet j ''duration'' (FNum elapsed)),
             OnJob (AssignResult j v),
             OnJob (JobSet j ''result''
               (FMarker True (''Invalid JSON Result: '' @ [dquote] @ s @ [dquote]))),
             OnJob (JobComplete j (K_complete j (Some v)))] @ snd (snd (start p w m)))"
  using assms by (simp add: done_cb_stored store_result_def then_start_def split: prod.splits)

text \<open>Witness for C8: job 42 finishes with a cyclic object after 5 ms.\<close>

theorem unserializable_result_marker_witness:
  "done_cb Processor job42 5 None (Some cyclic) (Worker ''mail'')
      \<lparr>clients = [(''mail'', 0)], next_client = 1\<rparr> =
     (Worker ''mail'', \<lparr>clients = [(''mail'', 0)], next_client = 1\<rparr>,
      [OnJob (AssignDuration job42 5), OnJob (JobSet job42 ''duration'' (FNum 5)),
       OnJob (AssignResult job42 cyclic),
       OnJob (JobSet job42 ''result''
         (FMarker True (''Invalid JSON Result: '' @ [dquote] @ ''[object Object]'' @ [dquote]))),
       OnJob (JobComplete job42 (K_complete job42 (Some cyclic))),
       Broker (Blpop 0 (Key ''mail:jobs'') (K_blpop Processor 0))])"
  using unserializable_result_marker[of None cyclic "''[object Object]''" Processor job42 5
      "Worker ''mail''" "\<lparr>clients = [(''mail'', 0)], next_client = 1\<rparr>"]
  by (simp add: err_truthy_def cyclic_def start_running Worker_def jobs_key_def)

subsection \<open>C9: resume\<close>

text \<open>
  C9: \<^verbatim>\<open>resume()\<close> returns true exactly when the worker was not running, and the worker
  is running afterwards. Called on a running worker it returns false and leaves the fields
  as they are, and the control object's \<^verbatim>\<open>resume\<close> then issues nothing: it does not call
  \<^verbatim>\<open>start\<close>. Called on a stopped worker, the control object's \<^verbatim>\<open>resume\<close> calls
  \<^verbatim>\<open>start\<close> on the worker set running.
\<close>

theorem resume_flag:
  "snd (resume w) = (\<not> running w)
   \<and> running (fst (resume w))
   \<and> (if running w
       then resume w = (w, False) \<and> ctx_resume p w m = (w, m, [])
       else resume w = (w\<lparr>running := True\<rparr>, True)
          \<and> ctx_resume p w m = start p (w\<lparr>running := True\<rparr>) m)"
  by (simp add: resume_def ctx_resume_def)

text \<open>Witness for C9: a running and a stopped worker.\<close>

theorem resume_flag_witness:
  "resume (Worker ''mail'') = (Worker ''mail'', False)
   \<and> ctx_resume Processor (Worker ''mail'') no_clients = (Worker ''mail'', no_clients, [])
   \<and> resume ((Worker ''mail'')\<lparr>running := False\<rparr>) = (Worker ''mail'', True)"
  using resume_flag[of "Worker ''mail''" Processor no_clients]
        resume_flag[of "(Worker ''mail'')\<lparr>running := False\<rparr>" Processor no_clients]
  by (simp add: Worker_def)

subsection \<open>C10: resume after a completed shutdown\<close>

text \<open>
  C10: the lifecycle state is the one boolean \<^verbatim>\<open>running\<close>. Once the wrapper \<^verbatim>\<open>_fn\<close> of
  a shutdown has run to its end on a worker that is no longer running, the worker is not
  running, the connection of its type has been quit (if there was one) and removed from
  the table; \<^verbatim>\<open>resume()\<close> then returns true and sets \<^verbatim>\<open>running\<close>, and \<^verbatim>\<open>start\<close> on
  the resumed worker creates a new connection and issues the blocking pop on it.
\<close>

theorem resume_after_shutdown:
  assumes "\<not> running w" and "\<not> older_job_event jarg (job w)"
  shows "let w1 = fst (shutdown_fn sid tm jarg w m);
             m1 = fst (snd (shutdown_fn sid tm jarg w m))
         in \<not> running w1
          \<and> map_of (clients m1) (wtype w1) = None
          \<and> (case map_of (clients m) (wtype w) of None \<Rightarrow> True
              | Some c \<Rightarrow> Broker (Quit c) \<in> set (snd (snd (shutdown_fn sid tm jarg w m))))
          \<and> resume w1 = (w1\<lparr>running := True\<rparr>, True)
          \<and> start p (fst (resume w1)) m1 =
              (w1\<lparr>running := True\<rparr>,
               m1\<lparr>clients := (wtype w, next_client m) # clients m1,
                  next_client := Suc (next_client m)\<rparr>,
               [Broker (CreateClient (next_client m)),
                Broker (Blpop (next_client m) (jobs_key w) (K_blpop p (next_client m)))])"
  using assms
  by (simp add: shutdown_fn_runs resume_def start_running map_of_filter_other jobs_key_def
      split: option.splits)

text \<open>
  Witness for C10: a started worker, parked on connection 0, is shut down, resumed and
  started again.
\<close>

theorem resume_after_shutdown_witness:
  "(let r = shutdown 1 None (Worker ''mail'') \<lparr>clients = [(''mail'', 0)], next_client = 1\<rparr>;
        w1 = fst r; m1 = fst (snd r)
    in \<not> running w1 \<and> clients m1 = []
     \<and> Broker (Quit 0) \<in> set (snd (snd r))
     \<and> resume w1 = (w1\<lparr>running := True\<rparr>, True)
     \<and> snd (snd (start Processor (fst (resume w1)) m1)) =
          [Broker (CreateClient 1), Broker (Blpop 1 (Key ''mail:jobs'') (K_blpop Processor 1))])"
  using resume_after_shutdown[of "(Worker ''mail'')\<lparr>running := False\<rparr>" None 1 False
      "\<lparr>clients = [(''mail'', 0)], next_client = 1\<rparr>" Processor]
  by (simp add: Worker_def start_running shutdown_def shutdown_fn_def older_job_event_def
      jobs_key_def resume_def)

end
